theory Spec2Isabelle
  imports Main "HOL-Library.Word"
begin

section \<open>JavaScript strings\<close>

text \<open>
  A JavaScript string is a sequence of UTF-16 code units. The string literals of
  \<^verbatim>\<open>src/App.tsx\<close> are ASCII, so a literal is written as an Isabelle string and
  mapped to its code units by \<open>js\<close>.
\<close>

type_synonym jschar = "16 word"
type_synonym jsstring = "jschar list"

definition js :: "string \<Rightarrow> jsstring" where
  "js s = map of_char s"

text \<open>
  \<^verbatim>\<open>String.prototype.trim\<close> removes leading and trailing code units that are
  WhiteSpace or LineTerminator in ECMAScript: TAB, LF, VT, FF, CR, SP, NBSP, U+1680,
  U+2000..U+200A, U+2028, U+2029, U+202F, U+205F, U+3000 and U+FEFF.
\<close>

definition isWhiteSpace :: "jschar \<Rightarrow> bool" where
  "isWhiteSpace c \<longleftrightarrow>
     (0x09 \<le> c \<and> c \<le> 0x0D) \<or> c = 0x20 \<or> c = 0xA0 \<or> c = 0x1680 \<or>
     (0x2000 \<le> c \<and> c \<le> 0x200A) \<or> c = 0x2028 \<or> c = 0x2029 \<or> c = 0x202F \<or>
     c = 0x205F \<or> c = 0x3000 \<or> c = 0xFEFF"

definition trim :: "jsstring \<Rightarrow> jsstring" where
  "trim s = rev (dropWhile isWhiteSpace (rev (dropWhile isWhiteSpace s)))"

text \<open>
  \<^verbatim>\<open>s.split(sep)\<close> for a separator of one code unit, the only use in the source
  (\<^verbatim>\<open>'\n'\<close> and \<^verbatim>\<open>'/'\<close>): the pieces between the separators, one more than there
  are separators, so \<^verbatim>\<open>''.split(sep)\<close> is \<^verbatim>\<open>['']\<close>.
\<close>

fun js_split :: "jschar \<Rightarrow> jsstring \<Rightarrow> jsstring list" where
  "js_split sep [] = [[]]"
| "js_split sep (c # cs) =
     (if c = sep then [] # js_split sep cs
      else (case js_split sep cs of
              [] \<Rightarrow> [[c]]
            | p # ps \<Rightarrow> (c # p) # ps))"

text \<open>\<^verbatim>\<open>Array.prototype.pop\<close> read for its value: the last element, or undefined.\<close>

definition pop :: "'a list \<Rightarrow> 'a option" where
  "pop xs = (if xs = [] then None else Some (last xs))"

text \<open>
  \<^verbatim>\<open>x || d\<close> on a string-or-undefined \<open>x\<close>: undefined and the empty string are
  falsy.
\<close>

definition or_default :: "jsstring option \<Rightarrow> jsstring \<Rightarrow> jsstring" where
  "or_default x d = (case x of None \<Rightarrow> d | Some t \<Rightarrow> if t = [] then d else t)"

section \<open>The component state\<close>

record Source =
  url :: jsstring
  title :: jsstring

record app_state =
  urls :: jsstring
  query :: jsstring
  isProcessing :: bool
  isSearching :: bool
  processedData :: bool
  answer :: jsstring
  sources :: "Source list"
  error :: "jsstring option"

text \<open>The initial values of the \<^verbatim>\<open>useState\<close> hooks.\<close>

definition initial_state :: app_state where
  "initial_state =
     \<lparr>urls = [], query = [], isProcessing = False, isSearching = False,
      processedData = False, answer = [], sources = [], error = None\<rparr>"

section \<open>processUrls\<close>

text \<open>
  \<^verbatim>\<open>urls.split('\n').filter(url => url.trim())\<close>: the lines that are not blank,
  untrimmed, in input order.
\<close>

definition urlList :: "jsstring \<Rightarrow> jsstring list" where
  "urlList u = filter (\<lambda>l. trim l \<noteq> []) (js_split 0x0A u)"

text \<open>\<^verbatim>\<open>url => ({url, title: url.split('/').pop() || 'Article'})\<close>\<close>

definition mockSource :: "jsstring \<Rightarrow> Source" where
  "mockSource u = \<lparr>url = u, title = or_default (pop (js_split 0x2F u)) (js ''Article'')\<rparr>"

text \<open>
  The handler, run to completion. Nothing in its \<^verbatim>\<open>try\<close> block can throw (a
  timer, \<^verbatim>\<open>split\<close>, \<^verbatim>\<open>filter\<close> and \<^verbatim>\<open>map\<close> on strings), so the \<^verbatim>\<open>catch\<close> branch
  has no counterpart; the \<^verbatim>\<open>finally\<close> block is the last update.
\<close>

definition processUrls :: "app_state \<Rightarrow> app_state" where
  "processUrls s =
     (if trim (urls s) = [] then s\<lparr>error := Some (js ''Please enter at least one URL'')\<rparr>
      else
        let s1 = s\<lparr>isProcessing := True, error := None\<rparr>;
            mockSources = map mockSource (urlList (urls s));
            s2 = s1\<lparr>sources := mockSources, processedData := True, error := None\<rparr>
        in s2\<lparr>isProcessing := False\<rparr>)"

section \<open>searchArticles\<close>

definition mockAnswers :: "jsstring list" where
  "mockAnswers =
     [js ''Based on the articles you've provided, '',
      js ''I can see that the topic you're asking about '',
      js ''is discussed in several sources. '',
      js ''The main points from the articles suggest that '',
      js ''this is an important development in the field. '',
      js ''According to the sources, there are multiple perspectives on this issue. '',
      js ''Some experts believe it will have significant impact, '',
      js ''while others are more cautious about the implications. '',
      js ''The data from these articles indicates a growing trend '',
      js ''that merits further investigation and analysis.'']"

text \<open>
  The streaming loop \<^verbatim>\<open>for (const part of parts) setAnswer(prev => prev + part)\<close>:
  one functional update of \<open>answer\<close> per fragment, in iteration order.
\<close>

fun streamAnswer :: "app_state \<Rightarrow> jsstring list \<Rightarrow> app_state" where
  "streamAnswer s [] = s"
| "streamAnswer s (part # parts) = streamAnswer (s\<lparr>answer := answer s @ part\<rparr>) parts"

text \<open>The state when the loop is entered: the three updates before the \<^verbatim>\<open>try\<close>.\<close>

definition searchStart :: "app_state \<Rightarrow> app_state" where
  "searchStart s = s\<lparr>isSearching := True, error := None, answer := []\<rparr>"

definition searchArticles :: "app_state \<Rightarrow> app_state" where
  "searchArticles s =
     (if trim (query s) = [] then s\<lparr>error := Some (js ''Please enter a question'')\<rparr>
      else if \<not> processedData s then s\<lparr>error := Some (js ''Please process URLs first'')\<rparr>
      else (streamAnswer (searchStart s) mockAnswers)\<lparr>isSearching := False\<rparr>)"

section \<open>Rendering and events\<close>


text \<open>
  The four event handlers of the component: the two \<^verbatim>\<open>onChange\<close> handlers and the
  two buttons. Each handler is run to completion before the next event. The
  \<^verbatim>\<open>disabled\<close> attributes of the inputs are not modelled: an event may arrive in any
  state, which covers every sequence the page allows.
\<close>

datatype event = ChangeUrls jsstring | ChangeQuery jsstring | ClickProcess | ClickSearch

fun handle :: "app_state \<Rightarrow> event \<Rightarrow> app_state" where
  "handle s (ChangeUrls v) = s\<lparr>urls := v\<rparr>"
| "handle s (ChangeQuery v) = s\<lparr>query := v\<rparr>"
| "handle s ClickProcess = processUrls s"
| "handle s ClickSearch = searchArticles s"

definition run :: "app_state \<Rightarrow> event list \<Rightarrow> app_state" where
  "run s evs = foldl handle s evs"

section \<open>Basic facts\<close>

lemma js_split_not_Nil: "js_split sep s \<noteq> []"
  by (induction s) (auto split: list.splits)

lemma streamAnswer_answer: "answer (streamAnswer s parts) = answer s @ concat parts"
  by (induction parts arbitrary: s) auto

lemma streamAnswer_other:
  "processedData (streamAnswer s parts) = processedData s"
  "sources (streamAnswer s parts) = sources s"
  "error (streamAnswer s parts) = error s"
  "urls (streamAnswer s parts) = urls s"
  "query (streamAnswer s parts) = query s"
  by (induction parts arbitrary: s) auto

lemma all_dropWhile_iff: "(\<forall>x\<in>set (dropWhile P xs). P x) \<longleftrightarrow> (\<forall>x\<in>set xs. P x)"
proof
  assume a: "\<forall>x\<in>set (dropWhile P xs). P x"
  show "\<forall>x\<in>set xs. P x"
  proof (cases "dropWhile P xs = []")
    case True
    then show ?thesis by simp
  next
    case False
    then have "\<not> P (hd (dropWhile P xs))" by (rule hd_dropWhile)
    moreover from False have "hd (dropWhile P xs) \<in> set (dropWhile P xs)" by simp
    ultimately show ?thesis using a by blast
  qed
next
  assume "\<forall>x\<in>set xs. P x"
  then show "\<forall>x\<in>set (dropWhile P xs). P x" by (blast dest: set_dropWhileD)
qed

lemma trim_Nil_iff: "trim s = [] \<longleftrightarrow> (\<forall>c\<in>set s. isWhiteSpace c)"
  by (simp add: trim_def all_dropWhile_iff)

lemma set_js_split: "\<Union>(set ` set (js_split sep s)) = set s - {sep}"
proof (induction s)
  case Nil
  then show ?case by simp
next
  case (Cons c cs)
  then show ?case by (cases "js_split sep cs") auto
qed

lemma isWhiteSpace_LF: "isWhiteSpace 0x0A"
  by (simp add: isWhiteSpace_def)

lemma all_lines_blank_iff:
  "(\<forall>l\<in>set (js_split 0x0A u). trim l = []) \<longleftrightarrow> trim u = []"
proof -
  have "(\<forall>l\<in>set (js_split 0x0A u). trim l = []) \<longleftrightarrow>
        (\<forall>c\<in>\<Union>(set ` set (js_split 0x0A u)). isWhiteSpace c)"
    by (auto simp: trim_Nil_iff)
  also have "\<dots> \<longleftrightarrow> (\<forall>c\<in>set u. isWhiteSpace c)"
    unfolding set_js_split using isWhiteSpace_LF by blast
  finally show ?thesis by (simp add: trim_Nil_iff)
qed

lemma concat_mockAnswers_not_Nil: "concat mockAnswers \<noteq> []"
  by (simp add: mockAnswers_def js_def)

lemma processUrls_query: "query (processUrls s) = query s"
  by (simp add: processUrls_def Let_def)

lemma processUrls_answer: "answer (processUrls s) = answer s"
  by (simp add: processUrls_def Let_def)

lemma processUrls_processedData: "processedData s \<Longrightarrow> processedData (processUrls s)"
  by (simp add: processUrls_def Let_def)

lemma searchArticles_processedData: "processedData (searchArticles s) = processedData s"
  by (simp add: searchArticles_def searchStart_def streamAnswer_other)


lemma handle_processedData: "processedData s \<Longrightarrow> processedData (handle s ev)"
  by (cases ev) (simp_all add: processUrls_processedData searchArticles_processedData)

lemma run_processedData: "processedData s \<Longrightarrow> processedData (run s evs)"
  unfolding run_def
  by (induction evs arbitrary: s) (simp_all add: handle_processedData)

lemma pop_js_split: "pop (js_split sep u) = Some (last (js_split sep u))"
  by (simp add: pop_def js_split_not_Nil)

lemma title_mockSource:
  "title (mockSource u) =
     (if last (js_split 0x2F u) = [] then js ''Article'' else last (js_split 0x2F u))"
  by (simp add: mockSource_def pop_js_split or_default_def)

lemma url_mockSource: "url (mockSource u) = u"
  by (simp add: mockSource_def)

lemma sources_processUrls:
  "trim (urls s) \<noteq> [] \<Longrightarrow> sources (processUrls s) = map mockSource (urlList (urls s))"
  by (simp add: processUrls_def Let_def)

lemma url_comp_mockSource: "url \<circ> mockSource = id"
  by (rule ext) (simp add: url_mockSource)



section \<open>Readiness gate of searchArticles\<close>




section \<open>Streaming order of the answer\<close>

text \<open>
  C1, amended. A search in a state with \<open>processedData\<close> true and a non-blank question
  (one that \<^verbatim>\<open>trim\<close> does not empty) ends with
  the answer equal to the concatenation of all fragments in their order in the fragment
  sequence; at every point of the loop, after the first \<open>k\<close> fragments, the answer is
  the concatenation of exactly those \<open>k\<close> fragments in order; and iteration \<open>k\<close> appends
  fragment \<open>k\<close> behind the answer so far. So no fragment is lost or reordered.
\<close>

theorem searchArticles_stream_order:
  assumes "processedData s" and "trim (query s) \<noteq> []"
  shows "answer (searchArticles s) = concat mockAnswers \<and>
         (\<forall>k\<le>length mockAnswers.
            answer (streamAnswer (searchStart s) (take k mockAnswers)) =
              concat (take k mockAnswers)) \<and>
         (\<forall>k<length mockAnswers.
            answer (streamAnswer (searchStart s) (take (Suc k) mockAnswers)) =
              answer (streamAnswer (searchStart s) (take k mockAnswers)) @ mockAnswers ! k)"
  using assms
  by (simp add: searchArticles_def searchStart_def streamAnswer_answer take_Suc_conv_app_nth)

theorem searchArticles_stream_order_witness:
  "processedData (initial_state\<lparr>query := js ''why'', processedData := True\<rparr>) \<and>
   trim (query (initial_state\<lparr>query := js ''why'', processedData := True\<rparr>)) \<noteq> [] \<and>
   answer (searchArticles (initial_state\<lparr>query := js ''why'', processedData := True\<rparr>)) =
     concat mockAnswers \<and>
   (3::nat) \<le> length mockAnswers \<and>
   answer (streamAnswer (searchStart (initial_state\<lparr>query := js ''why'', processedData := True\<rparr>))
       (take 3 mockAnswers)) = concat (take 3 mockAnswers) \<and>
   (2::nat) < length mockAnswers \<and>
   answer (streamAnswer (searchStart (initial_state\<lparr>query := js ''why'', processedData := True\<rparr>))
       (take (Suc 2) mockAnswers)) =
     answer (streamAnswer (searchStart (initial_state\<lparr>query := js ''why'', processedData := True\<rparr>))
       (take 2 mockAnswers)) @ mockAnswers ! 2"
proof -
  let ?s = "initial_state\<lparr>query := js ''why'', processedData := True\<rparr>"
  have p: "processedData ?s" by simp
  have q: "trim (query ?s) \<noteq> []" by (simp add: trim_def js_def isWhiteSpace_def)
  have l: "(3::nat) \<le> length mockAnswers" "(2::nat) < length mockAnswers"
    by (simp_all add: mockAnswers_def)
  from searchArticles_stream_order [OF p q] l show ?thesis using p q by blast
qed

text \<open>
  The claim as stated, for every non-empty question, fails: after a batch was processed,
  a search with the question of one space appends no fragment; the answer stays empty
  and is not the concatenation of the fragments.
\<close>

theorem blank_question_no_fragment_counterexample:
  "query (run initial_state [ChangeUrls (js ''a''), ClickProcess, ChangeQuery (js '' '')]) \<noteq> [] \<and>
   processedData (run initial_state [ChangeUrls (js ''a''), ClickProcess, ChangeQuery (js '' '')]) \<and>
   answer (searchArticles
     (run initial_state [ChangeUrls (js ''a''), ClickProcess, ChangeQuery (js '' '')])) = [] \<and>
   answer (searchArticles
     (run initial_state [ChangeUrls (js ''a''), ClickProcess, ChangeQuery (js '' '')])) \<noteq>
     concat mockAnswers"
proof -
  let ?s = "run initial_state [ChangeUrls (js ''a''), ClickProcess, ChangeQuery (js '' '')]"
  have n: "query ?s \<noteq> []" by (simp add: run_def js_def)
  have p: "processedData ?s"
    by (simp add: run_def initial_state_def processUrls_def trim_def js_def isWhiteSpace_def)
  have b: "trim (query ?s) = []"
    by (simp add: run_def trim_def js_def isWhiteSpace_def)
  have a0: "answer ?s = []"
    by (simp add: run_def initial_state_def processUrls_answer)
  from b have a: "answer (searchArticles ?s) = []"
    by (simp add: searchArticles_def a0)
  from a concat_mockAnswers_not_Nil have "answer (searchArticles ?s) \<noteq> concat mockAnswers"
    by (simp only:) (rule not_sym)
  with n p a show ?thesis by blast
qed

section \<open>Rejection of a blank URL text\<close>

text \<open>
  C4. When every line of the URL text is empty or whitespace only, processUrls ends with
  the error "Please enter at least one URL" and changes nothing else: \<open>processedData\<close>
  and \<open>sources\<close> are as before.
\<close>

theorem processUrls_empty_rejected:
  assumes "\<forall>l\<in>set (js_split 0x0A (urls s)). trim l = []"
  shows "processUrls s = s\<lparr>error := Some (js ''Please enter at least one URL'')\<rparr> \<and>
         processedData (processUrls s) = processedData s \<and>
         sources (processUrls s) = sources s"
proof -
  from assms have "trim (urls s) = []" by (simp only: all_lines_blank_iff)
  then show ?thesis by (simp add: processUrls_def)
qed

theorem processUrls_empty_rejected_witness:
  "js_split 0x0A (urls (initial_state\<lparr>urls := js '' \<newline>\<newline>  ''\<rparr>)) = [js '' '', [], js ''  ''] \<and>
   trim (js '' '') = [] \<and> trim [] = [] \<and> trim (js ''  '') = [] \<and>
   processUrls (initial_state\<lparr>urls := js '' \<newline>\<newline>  ''\<rparr>) =
     initial_state\<lparr>urls := js '' \<newline>\<newline>  '', error := Some (js ''Please enter at least one URL'')\<rparr> \<and>
   processedData (processUrls (initial_state\<lparr>urls := js '' \<newline>\<newline>  ''\<rparr>)) = False \<and>
   sources (processUrls (initial_state\<lparr>urls := js '' \<newline>\<newline>  ''\<rparr>)) = []"
proof -
  let ?s = "initial_state\<lparr>urls := js '' \<newline>\<newline>  ''\<rparr>"
  have lines: "js_split 0x0A (urls ?s) = [js '' '', [], js ''  '']"
    by (simp add: js_def)
  have blank: "trim (js '' '') = []" "trim [] = []" "trim (js ''  '') = []"
    by (simp_all add: trim_def js_def isWhiteSpace_def)
  have "\<forall>l\<in>set (js_split 0x0A (urls ?s)). trim l = []"
    unfolding lines using blank by simp
  from processUrls_empty_rejected [OF this] lines blank show ?thesis
    by (simp add: initial_state_def)
qed

section \<open>The processed flag never falls back\<close>

text \<open>
  C9. Once \<open>processedData\<close> is true it stays true: through a processUrls call (rejected
  or successful), through a searchArticles call (rejected or successful), and through
  every sequence of events; so a later search with a non-blank question ends without
  error.
\<close>

theorem processedData_monotone:
  assumes "processedData s"
  shows "processedData (processUrls s) \<and> processedData (searchArticles s) \<and>
         processedData (run s evs) \<and>
         (trim (query (run s evs)) \<noteq> [] \<longrightarrow> error (searchArticles (run s evs)) = None)"
proof -
  from assms have r: "processedData (run s evs)" by (rule run_processedData)
  then have "trim (query (run s evs)) \<noteq> [] \<longrightarrow> error (searchArticles (run s evs)) = None"
    by (simp add: searchArticles_def searchStart_def streamAnswer_other)
  with assms r show ?thesis
    by (simp add: processUrls_processedData searchArticles_processedData)
qed

theorem processedData_monotone_witness:
  "processedData (processUrls (initial_state\<lparr>urls := js ''a''\<rparr>)) \<and>
   processedData (run (processUrls (initial_state\<lparr>urls := js ''a''\<rparr>))
     [ChangeUrls (js '' ''), ClickProcess, ClickSearch, ChangeQuery (js ''why''), ClickSearch,
      ChangeUrls (js ''b''), ClickProcess]) \<and>
   trim (query (run (processUrls (initial_state\<lparr>urls := js ''a''\<rparr>))
     [ChangeUrls (js '' ''), ClickProcess, ClickSearch, ChangeQuery (js ''why''), ClickSearch,
      ChangeUrls (js ''b''), ClickProcess])) \<noteq> [] \<and>
   error (searchArticles (run (processUrls (initial_state\<lparr>urls := js ''a''\<rparr>))
     [ChangeUrls (js '' ''), ClickProcess, ClickSearch, ChangeQuery (js ''why''), ClickSearch,
      ChangeUrls (js ''b''), ClickProcess])) = None"
proof -
  let ?s = "processUrls (initial_state\<lparr>urls := js ''a''\<rparr>)"
  let ?evs = "[ChangeUrls (js '' ''), ClickProcess, ClickSearch, ChangeQuery (js ''why''), ClickSearch,
      ChangeUrls (js ''b''), ClickProcess]"
  have p: "processedData ?s"
    by (simp add: initial_state_def processUrls_def trim_def js_def isWhiteSpace_def)
  have q: "trim (query (run ?s ?evs)) \<noteq> []"
    by (simp add: run_def processUrls_query searchArticles_def searchStart_def streamAnswer_other
        trim_def js_def isWhiteSpace_def)
  from processedData_monotone [OF p, of ?evs] p q show ?thesis by blast
qed

section \<open>The answer does not depend on the inputs\<close>

text \<open>
  C10, amended. For any two states with \<open>processedData\<close> true and a non-blank question
  (one that \<^verbatim>\<open>trim\<close> does not empty), whatever
  their questions, URL texts and sources, the searches end with the same answer: the
  concatenation of the fixed fragments.
\<close>

theorem answer_independent_of_inputs:
  assumes "processedData s1" and "trim (query s1) \<noteq> []"
    and "processedData s2" and "trim (query s2) \<noteq> []"
  shows "answer (searchArticles s1) = answer (searchArticles s2) \<and>
         answer (searchArticles s1) = concat mockAnswers"
  using assms
  by (simp add: searchArticles_def searchStart_def streamAnswer_answer)

theorem answer_independent_of_inputs_witness:
  "processedData (run initial_state [ChangeUrls (js ''https://a.org/x''), ClickProcess, ChangeQuery (js ''why'')]) \<and>
   trim (query (run initial_state [ChangeUrls (js ''https://a.org/x''), ClickProcess, ChangeQuery (js ''why'')])) \<noteq> [] \<and>
   processedData (run initial_state [ChangeUrls (js ''b\<newline>c''), ClickProcess, ChangeQuery (js ''how so?'')]) \<and>
   trim (query (run initial_state [ChangeUrls (js ''b\<newline>c''), ClickProcess, ChangeQuery (js ''how so?'')])) \<noteq> [] \<and>
   answer (searchArticles (run initial_state [ChangeUrls (js ''https://a.org/x''), ClickProcess, ChangeQuery (js ''why'')])) =
   answer (searchArticles (run initial_state [ChangeUrls (js ''b\<newline>c''), ClickProcess, ChangeQuery (js ''how so?'')]))"
proof -
  let ?a = "run initial_state [ChangeUrls (js ''https://a.org/x''), ClickProcess, ChangeQuery (js ''why'')]"
  let ?b = "run initial_state [ChangeUrls (js ''b\<newline>c''), ClickProcess, ChangeQuery (js ''how so?'')]"
  have pa: "processedData ?a"
    by (simp add: run_def initial_state_def processUrls_def trim_def js_def isWhiteSpace_def)
  have qa: "trim (query ?a) \<noteq> []"
    by (simp add: run_def trim_def js_def isWhiteSpace_def)
  have pb: "processedData ?b"
    by (simp add: run_def initial_state_def processUrls_def trim_def js_def isWhiteSpace_def)
  have qb: "trim (query ?b) \<noteq> []"
    by (simp add: run_def trim_def js_def isWhiteSpace_def)
  from answer_independent_of_inputs [OF pa qa pb qb] pa qa pb qb show ?thesis by blast
qed

text \<open>
  The claim as stated, for any two non-empty questions, fails: after the same batch was
  processed, the question of one space leaves the answer empty and the question \<open>why\<close>
  gives the fixed text, so the two answers differ.
\<close>

theorem blank_question_answer_differs_counterexample:
  "query (run initial_state [ChangeUrls (js ''a''), ClickProcess, ChangeQuery (js '' '')]) \<noteq> [] \<and>
   processedData (run initial_state [ChangeUrls (js ''a''), ClickProcess, ChangeQuery (js '' '')]) \<and>
   query (run initial_state [ChangeUrls (js ''a''), ClickProcess, ChangeQuery (js ''why'')]) \<noteq> [] \<and>
   processedData (run initial_state [ChangeUrls (js ''a''), ClickProcess, ChangeQuery (js ''why'')]) \<and>
   answer (searchArticles
     (run initial_state [ChangeUrls (js ''a''), ClickProcess, ChangeQuery (js '' '')])) \<noteq>
   answer (searchArticles
     (run initial_state [ChangeUrls (js ''a''), ClickProcess, ChangeQuery (js ''why'')]))"
proof -
  let ?b = "run initial_state [ChangeUrls (js ''a''), ClickProcess, ChangeQuery (js '' '')]"
  let ?w = "run initial_state [ChangeUrls (js ''a''), ClickProcess, ChangeQuery (js ''why'')]"
  have nb: "query ?b \<noteq> []" and nw: "query ?w \<noteq> []" by (simp_all add: run_def js_def)
  have pb: "processedData ?b" and pw: "processedData ?w"
    by (simp_all add: run_def initial_state_def processUrls_def trim_def js_def isWhiteSpace_def)
  have "trim (query ?b) = []"
    by (simp add: run_def trim_def js_def isWhiteSpace_def)
  moreover have "answer ?b = []"
    by (simp add: run_def initial_state_def processUrls_answer)
  ultimately have ab: "answer (searchArticles ?b) = []"
    by (simp add: searchArticles_def)
  have "trim (query ?w) \<noteq> []"
    by (simp add: run_def trim_def js_def isWhiteSpace_def)
  with pw have aw: "answer (searchArticles ?w) = concat mockAnswers"
    by (simp add: searchArticles_def searchStart_def streamAnswer_answer)
  from ab aw concat_mockAnswers_not_Nil
  have "answer (searchArticles ?b) \<noteq> answer (searchArticles ?w)"
    by (simp only:) (rule not_sym)
  with nb pb nw pw show ?thesis by blast
qed

section \<open>A new batch replaces the sources\<close>

text \<open>
  C6. A processUrls call on a URL text that is not blank ends with \<open>processedData\<close> true
  and with \<open>sources\<close> equal to the mock sources of the non-blank lines of that text;
  the result is the same whatever the sources were before, so no earlier entry is
  carried over.
\<close>

theorem processUrls_replaces_sources:
  assumes "trim (urls s) \<noteq> []"
  shows "sources (processUrls s) = map mockSource (urlList (urls s)) \<and>
         sources (processUrls (s\<lparr>sources := old\<rparr>)) = sources (processUrls s) \<and>
         processedData (processUrls s)"
  using assms by (simp add: processUrls_def Let_def)

theorem processUrls_replaces_sources_witness:
  "trim (urls ((processUrls (initial_state\<lparr>urls := js ''a''\<rparr>))\<lparr>urls := js ''b/''\<rparr>)) \<noteq> [] \<and>
   sources ((processUrls (initial_state\<lparr>urls := js ''a''\<rparr>))\<lparr>urls := js ''b/''\<rparr>) =
     [\<lparr>url = js ''a'', title = js ''a''\<rparr>] \<and>
   sources (processUrls ((processUrls (initial_state\<lparr>urls := js ''a''\<rparr>))\<lparr>urls := js ''b/''\<rparr>)) =
     [\<lparr>url = js ''b/'', title = js ''Article''\<rparr>] \<and>
   processedData (processUrls ((processUrls (initial_state\<lparr>urls := js ''a''\<rparr>))\<lparr>urls := js ''b/''\<rparr>))"
proof -
  let ?s = "(processUrls (initial_state\<lparr>urls := js ''a''\<rparr>))\<lparr>urls := js ''b/''\<rparr>"
  have h: "trim (urls ?s) \<noteq> []"
    by (simp add: trim_def js_def isWhiteSpace_def)
  have old: "sources ?s = [\<lparr>url = js ''a'', title = js ''a''\<rparr>]"
    by (simp add: initial_state_def processUrls_def urlList_def mockSource_def pop_def
        or_default_def trim_def js_def isWhiteSpace_def)
  have new: "map mockSource (urlList (urls ?s)) = [\<lparr>url = js ''b/'', title = js ''Article''\<rparr>]"
    by (simp add: urlList_def mockSource_def pop_def or_default_def trim_def js_def
        isWhiteSpace_def)
  from processUrls_replaces_sources [OF h] h old new show ?thesis by simp
qed

section \<open>Repeated URLs\<close>

text \<open>
  C3, amended. After a processUrls call on a URL text that is not blank (one with at
  least one non-blank line, the only texts the call accepts), the sources have one entry
  per non-blank line of that text, in input order, with that line as url; so no two
  entries have the same url exactly when the non-blank lines are pairwise different.
  Nothing removes a repeated line.
\<close>

theorem sources_distinct_iff_lines_distinct:
  assumes "trim (urls s) \<noteq> []"
  shows "map url (sources (processUrls s)) = urlList (urls s) \<and>
         (distinct (map url (sources (processUrls s))) \<longleftrightarrow> distinct (urlList (urls s)))"
  using assms by (simp add: sources_processUrls url_comp_mockSource)

theorem sources_distinct_iff_lines_distinct_witness:
  "trim (urls (initial_state\<lparr>urls := js ''a\<newline>b''\<rparr>)) \<noteq> [] \<and>
   urlList (urls (initial_state\<lparr>urls := js ''a\<newline>b''\<rparr>)) = [js ''a'', js ''b''] \<and>
   map url (sources (processUrls (initial_state\<lparr>urls := js ''a\<newline>b''\<rparr>))) = [js ''a'', js ''b''] \<and>
   distinct (map url (sources (processUrls (initial_state\<lparr>urls := js ''a\<newline>b''\<rparr>))))"
proof -
  let ?s = "initial_state\<lparr>urls := js ''a\<newline>b''\<rparr>"
  have h: "trim (urls ?s) \<noteq> []"
    by (simp add: trim_def js_def isWhiteSpace_def)
  have l: "urlList (urls ?s) = [js ''a'', js ''b'']"
    by (simp add: urlList_def trim_def js_def isWhiteSpace_def)
  have d: "distinct [js ''a'', js ''b'']"
    by (simp add: js_def)
  from sources_distinct_iff_lines_distinct [OF h] h l d show ?thesis by simp
qed

text \<open>
  The claim as stated fails: the URL text with the line \<open>a\<close> twice gives two entries
  with url \<open>a\<close>.
\<close>

theorem sources_not_deduplicated_counterexample:
  "\<not> distinct (map url (sources (processUrls (initial_state\<lparr>urls := js ''a\<newline>a''\<rparr>))))"
  by (simp add: initial_state_def processUrls_def urlList_def mockSource_def
      trim_def js_def isWhiteSpace_def)

section \<open>The mock title\<close>

text \<open>
  C7, amended. The title of every source produced by processUrls is the last
  \<open>/\<close>-separated segment of its url when that segment is not empty, and \<open>Article\<close> when
  it is empty; so the title is \<open>Article\<close> exactly when the last segment is empty or is
  itself \<open>Article\<close>.
\<close>

theorem title_last_segment_or_fallback:
  assumes "trim (urls s) \<noteq> []" and "src \<in> set (sources (processUrls s))"
  shows "title src =
           (if last (js_split 0x2F (url src)) = [] then js ''Article''
            else last (js_split 0x2F (url src))) \<and>
         (title src = js ''Article'' \<longleftrightarrow>
            last (js_split 0x2F (url src)) = [] \<or>
            last (js_split 0x2F (url src)) = js ''Article'')"
proof -
  from assms obtain u where "src = mockSource u"
    by (auto simp: sources_processUrls)
  then show ?thesis
    by (simp add: title_mockSource url_mockSource)
qed

theorem title_last_segment_or_fallback_witness:
  "trim (urls (initial_state\<lparr>urls := js ''h://a/x\<newline>h://b/''\<rparr>)) \<noteq> [] \<and>
   sources (processUrls (initial_state\<lparr>urls := js ''h://a/x\<newline>h://b/''\<rparr>)) =
     [\<lparr>url = js ''h://a/x'', title = js ''x''\<rparr>, \<lparr>url = js ''h://b/'', title = js ''Article''\<rparr>] \<and>
   last (js_split 0x2F (js ''h://a/x'')) = js ''x'' \<and>
   last (js_split 0x2F (js ''h://b/'')) = []"
proof -
  let ?s = "initial_state\<lparr>urls := js ''h://a/x\<newline>h://b/''\<rparr>"
  let ?a = "\<lparr>url = js ''h://a/x'', title = js ''x''\<rparr>"
  let ?b = "\<lparr>url = js ''h://b/'', title = js ''Article''\<rparr>"
  have h: "trim (urls ?s) \<noteq> []"
    by (simp add: trim_def js_def isWhiteSpace_def)
  have l: "sources (processUrls ?s) = [?a, ?b]"
    by (simp add: initial_state_def processUrls_def urlList_def mockSource_def pop_def
        or_default_def trim_def js_def isWhiteSpace_def)
  have a: "?a \<in> set (sources (processUrls ?s))" and b: "?b \<in> set (sources (processUrls ?s))"
    unfolding l by simp_all
  have nx: "js ''x'' \<noteq> js ''Article''" "js ''x'' \<noteq> []" by (simp_all add: js_def)
  from title_last_segment_or_fallback [OF h a] nx
  have "last (js_split 0x2F (js ''h://a/x'')) = js ''x''"
    by (auto split: if_splits)
  moreover have "last (js_split 0x2F (js ''h://b/'')) = []"
    by (simp add: js_def)
  ultimately show ?thesis using h l by blast
qed

text \<open>
  The claim as stated fails: for the URL \<open>x/Article\<close> the title is \<open>Article\<close> although
  the last segment is not empty.
\<close>

theorem title_Article_counterexample:
  "sources (processUrls (initial_state\<lparr>urls := js ''x/Article''\<rparr>)) =
     [\<lparr>url = js ''x/Article'', title = js ''Article''\<rparr>] \<and>
   last (js_split 0x2F (js ''x/Article'')) \<noteq> []"
  by (simp add: initial_state_def processUrls_def urlList_def mockSource_def pop_def
      or_default_def trim_def js_def isWhiteSpace_def)

section \<open>The displayed sources\<close>




end
